theory Spec2Isabelle
  imports Main "HOL-Library.Word"
begin

section \<open>VaultGrid: the confidential document registry of contracts/VaultGrid.sol\<close>

text \<open>
  The contract is embedded function by function. Solidity's value types are words of their
  width: \<open>uint256\<close> and the \<open>bytes32\<close> handles (\<open>eaddress\<close>, \<open>externalEaddress\<close>) are
  256-bit words, \<open>address\<close> is a 160-bit word, and \<open>address(0)\<close> is the word \<open>0\<close>.
  A \<open>mapping\<close> is a total function whose value at a key never written is the zero value
  of its type, as in contract storage.
\<close>

type_synonym uint256 = "256 word"
type_synonym address = "160 word"
type_synonym eaddress = "256 word"
type_synonym externalEaddress = "256 word"
type_synonym bytes = "8 word list"

subsection \<open>Data\<close>

text \<open>\<^verbatim>\<open>struct Document\<close>, field by field.\<close>

record Document =
  name :: string
  encryptedBody :: string
  encryptedKey :: eaddress
  owner :: address
  createdAt :: uint256
  updatedAt :: uint256

text \<open>The zero value of \<^verbatim>\<open>Document\<close>: what \<^verbatim>\<open>_documents[id]\<close> reads at an id never written.\<close>

definition zeroDocument :: Document where
  "zeroDocument =
     \<lparr>name = [], encryptedBody = [], encryptedKey = 0, owner = 0, createdAt = 0, updatedAt = 0\<rparr>"

datatype event =
    DocumentCreated uint256 address string
  | DocumentUpdated uint256 address
  | AccessGranted uint256 address

text \<open>
  The contract's three custom errors, the arithmetic panic of checked \<^verbatim>\<open>++\<close>
  (Solidity 0.8, \<^verbatim>\<open>Panic(0x11)\<close>), and a revert raised inside the FHE library.
\<close>

datatype error =
    DocumentNotFound uint256
  | NotAuthorized address
  | InvalidAddress
  | ArithmeticPanic
  | FHEReverted

text \<open>
  Contract storage: \<^verbatim>\<open>_documentCount\<close>, \<^verbatim>\<open>_documents\<close>, \<^verbatim>\<open>_editors\<close> (an identifier cannot
  start with an underscore here, so the fields carry the prefix \<open>priv\<close>), the log of
  emitted events, and the state \<open>'acl\<close> of the FHE access-control contract that the library
  calls write to.
\<close>

record 'acl state =
  priv_documentCount :: uint256
  priv_documents :: "uint256 \<Rightarrow> Document"
  priv_editors :: "uint256 \<Rightarrow> address \<Rightarrow> bool"
  events :: "event list"
  acl :: 'acl

text \<open>The state of a freshly deployed contract: every storage slot is zero.\<close>

definition init :: "'acl \<Rightarrow> 'acl state" where
  "init a =
     \<lparr>priv_documentCount = 0, priv_documents = (\<lambda>_. zeroDocument),
      priv_editors = (\<lambda>_ _. False), events = [], acl = a\<rparr>"

text \<open>The part of the transaction context the contract reads: \<^verbatim>\<open>msg.sender\<close>, \<^verbatim>\<open>block.timestamp\<close>.\<close>

record env =
  msg_sender :: address
  block_timestamp :: uint256

text \<open>
  The library \<^verbatim>\<open>@fhevm/solidity/lib/FHE.sol\<close> is imported by the contract and is not part
  of the repository, so its three functions that the contract calls are parameters of the
  model. Each reads and writes the access-control state, and each may revert (\<open>None\<close>).
  \<open>fromExternal\<close> also sees \<^verbatim>\<open>msg.sender\<close>.
\<close>

record 'acl FHE =
  fromExternal :: "'acl \<Rightarrow> address \<Rightarrow> externalEaddress \<Rightarrow> bytes \<Rightarrow> (eaddress \<times> 'acl) option"
  allowThis :: "'acl \<Rightarrow> eaddress \<Rightarrow> 'acl option"
  allow :: "'acl \<Rightarrow> eaddress \<Rightarrow> address \<Rightarrow> 'acl option"

subsection \<open>Views\<close>

definition documentCount :: "'acl state \<Rightarrow> uint256" where
  "documentCount s = priv_documentCount s"

text \<open>\<^verbatim>\<open>_getDocument\<close>: the storage reference, or a revert when the owner field is zero.\<close>

definition getDocument_priv :: "'acl state \<Rightarrow> uint256 \<Rightarrow> error + Document" where
  "getDocument_priv s documentId =
     (let doc = priv_documents s documentId in
      if owner doc = 0 then Inl (DocumentNotFound documentId) else Inr doc)"

definition getDocument ::
  "'acl state \<Rightarrow> uint256 \<Rightarrow> error + (string \<times> string \<times> eaddress \<times> address \<times> uint256 \<times> uint256)" where
  "getDocument s documentId =
     (case getDocument_priv s documentId of
        Inl e \<Rightarrow> Inl e
      | Inr doc \<Rightarrow>
          Inr (name doc, encryptedBody doc, encryptedKey doc, owner doc, createdAt doc, updatedAt doc))"

definition isEditor :: "'acl state \<Rightarrow> uint256 \<Rightarrow> address \<Rightarrow> error + bool" where
  "isEditor s documentId user =
     (case getDocument_priv s documentId of
        Inl e \<Rightarrow> Inl e
      | Inr _ \<Rightarrow> Inr (priv_editors s documentId user))"

subsection \<open>State-changing functions\<close>

text \<open>
  Each function returns the error it reverts with, or the state it leaves. The statements
  are in the order of the source: the checked pre-increment, \<^verbatim>\<open>FHE.fromExternal\<close>, the two
  storage writes, \<^verbatim>\<open>FHE.allowThis\<close>, \<^verbatim>\<open>FHE.allow\<close>, the event.
\<close>

definition createDocument ::
  "'acl FHE \<Rightarrow> env \<Rightarrow> 'acl state \<Rightarrow> string \<Rightarrow> externalEaddress \<Rightarrow> bytes
     \<Rightarrow> error + ('acl state \<times> uint256)" where
  "createDocument F e s nm encKey inputProof =
     (if priv_documentCount s = - 1 then Inl ArithmeticPanic
      else
        let documentId = priv_documentCount s + 1;
            s1 = s\<lparr>priv_documentCount := documentId\<rparr>
        in case fromExternal F (acl s1) (msg_sender e) encKey inputProof of
             None \<Rightarrow> Inl FHEReverted
           | Some (key, a1) \<Rightarrow>
               let s2 = s1\<lparr>acl := a1,
                          priv_documents := (priv_documents s1)(documentId :=
                            \<lparr>name = nm, encryptedBody = [], encryptedKey = key,
                             owner = msg_sender e, createdAt = block_timestamp e,
                             updatedAt = block_timestamp e\<rparr>)\<rparr>;
                   s3 = s2\<lparr>priv_editors := (priv_editors s2)(documentId :=
                            (priv_editors s2 documentId)(msg_sender e := True))\<rparr>
               in case allowThis F (acl s3) key of
                    None \<Rightarrow> Inl FHEReverted
                  | Some a2 \<Rightarrow>
                      (case allow F a2 key (msg_sender e) of
                         None \<Rightarrow> Inl FHEReverted
                       | Some a3 \<Rightarrow>
                           Inr (s3\<lparr>acl := a3,
                                   events := events s3 @
                                     [DocumentCreated documentId (msg_sender e) nm]\<rparr>,
                                documentId)))"

definition updateDocument ::
  "env \<Rightarrow> 'acl state \<Rightarrow> uint256 \<Rightarrow> string \<Rightarrow> error + 'acl state" where
  "updateDocument e s documentId body =
     (case getDocument_priv s documentId of
        Inl err \<Rightarrow> Inl err
      | Inr doc \<Rightarrow>
          if \<not> priv_editors s documentId (msg_sender e) then Inl (NotAuthorized (msg_sender e))
          else
            let s1 = s\<lparr>priv_documents := (priv_documents s)(documentId :=
                         (priv_documents s documentId)\<lparr>encryptedBody := body\<rparr>)\<rparr>;
                s2 = s1\<lparr>priv_documents := (priv_documents s1)(documentId :=
                         (priv_documents s1 documentId)\<lparr>updatedAt := block_timestamp e\<rparr>)\<rparr>
            in Inr (s2\<lparr>events := events s2 @ [DocumentUpdated documentId (msg_sender e)]\<rparr>))"

definition grantAccess ::
  "'acl FHE \<Rightarrow> env \<Rightarrow> 'acl state \<Rightarrow> uint256 \<Rightarrow> address \<Rightarrow> error + 'acl state" where
  "grantAccess F e s documentId user =
     (if user = 0 then Inl InvalidAddress
      else case getDocument_priv s documentId of
             Inl err \<Rightarrow> Inl err
           | Inr doc \<Rightarrow>
               if msg_sender e \<noteq> owner doc then Inl (NotAuthorized (msg_sender e))
               else
                 let s1 = s\<lparr>priv_editors := (priv_editors s)(documentId :=
                              (priv_editors s documentId)(user := True))\<rparr>
                 in case allow F (acl s1) (encryptedKey doc) user of
                      None \<Rightarrow> Inl FHEReverted
                    | Some a1 \<Rightarrow>
                        Inr (s1\<lparr>acl := a1,
                                events := events s1 @ [AccessGranted documentId user]\<rparr>))"

subsection \<open>Transactions\<close>

text \<open>
  A transaction is one external call in its context. A call that reverts leaves the
  storage (and the log) as it was before the call: this is the rollback of the EVM, and it
  is where the writes a function made before reverting are discarded. \<open>execute\<close> returns
  the state after the transaction and what the caller observes.
\<close>

datatype call =
    CreateDocument string externalEaddress bytes
  | UpdateDocument uint256 string
  | GrantAccess uint256 address

datatype outcome = Reverted error | Created uint256 | Done

fun execute :: "'acl FHE \<Rightarrow> 'acl state \<Rightarrow> env \<times> call \<Rightarrow> 'acl state \<times> outcome" where
  "execute F s (e, CreateDocument nm encKey inputProof) =
     (case createDocument F e s nm encKey inputProof of
        Inl err \<Rightarrow> (s, Reverted err)
      | Inr (s', documentId) \<Rightarrow> (s', Created documentId))"
| "execute F s (e, UpdateDocument documentId body) =
     (case updateDocument e s documentId body of
        Inl err \<Rightarrow> (s, Reverted err)
      | Inr s' \<Rightarrow> (s', Done))"
| "execute F s (e, GrantAccess documentId user) =
     (case grantAccess F e s documentId user of
        Inl err \<Rightarrow> (s, Reverted err)
      | Inr s' \<Rightarrow> (s', Done))"

text \<open>A sequence of transactions, applied in order, with the outcome of each.\<close>

fun run :: "'acl FHE \<Rightarrow> 'acl state \<Rightarrow> (env \<times> call) list \<Rightarrow> 'acl state \<times> outcome list" where
  "run F s [] = (s, [])"
| "run F s (t # ts) =
     (let (s1, r) = execute F s t; (s2, rs) = run F s1 ts in (s2, r # rs))"

text \<open>The ids that the successful \<^verbatim>\<open>createDocument\<close> calls of a sequence returned, in order.\<close>

fun created_ids :: "outcome list \<Rightarrow> uint256 list" where
  "created_ids [] = []"
| "created_ids (Created documentId # rs) = documentId # created_ids rs"
| "created_ids (_ # rs) = created_ids rs"

text \<open>
  A stand-in for the FHE library, for evaluating the contract on concrete inputs, in the
  way the repository's tests run against the mock of the Hardhat plugin: every call
  succeeds, the imported handle is the external handle, and the access-control state is the
  list of (handle, account) pairs allowed so far, with \<open>None\<close> as the account for the
  contract itself.
\<close>

definition mockFHE :: "(eaddress \<times> address option) list FHE" where
  "mockFHE =
     \<lparr>fromExternal = (\<lambda>a sender h proof. Some (h, a)),
      allowThis = (\<lambda>a k. Some ((k, None) # a)),
      allow = (\<lambda>a k u. Some ((k, Some u) # a))\<rparr>"

subsection \<open>A concrete scenario\<close>

text \<open>
  The scenario of the repository's test "blocks non-editors and allows granted editors":
  Alice creates the document "Ops Manual", grants Bob access, and Bob writes the body.
  Here all three transactions are in one block, so they read the same \<^verbatim>\<open>block.timestamp\<close>.
\<close>

definition alice :: address where "alice = 0xA11CE"
definition bob :: address where "bob = 0xB0B"
definition carol :: address where "carol = 0xCA201"

definition tx_create :: "env \<times> call" where
  "tx_create =
     (\<lparr>msg_sender = alice, block_timestamp = 100\<rparr>, CreateDocument ''Ops Manual'' 7 [1])"

definition tx_grant :: "env \<times> call" where
  "tx_grant = (\<lparr>msg_sender = alice, block_timestamp = 100\<rparr>, GrantAccess 1 bob)"

definition tx_update :: "env \<times> call" where
  "tx_update = (\<lparr>msg_sender = bob, block_timestamp = 100\<rparr>, UpdateDocument 1 ''ciphertext'')"

definition tx_other :: "env \<times> call" where
  "tx_other = (\<lparr>msg_sender = carol, block_timestamp = 150\<rparr>, CreateDocument ''Notes'' 9 [])"

definition deployed :: "(eaddress \<times> address option) list state" where
  "deployed = init []"

definition state_created :: "(eaddress \<times> address option) list state" where
  "state_created = fst (run mockFHE deployed [tx_create])"

definition state_granted :: "(eaddress \<times> address option) list state" where
  "state_granted = fst (run mockFHE deployed [tx_create, tx_grant])"

section \<open>Properties of a single transaction and of sequences\<close>

lemmas op_defs = createDocument_def updateDocument_def grantAccess_def getDocument_priv_def

lemma execute_editors_mono:
  "priv_editors s i u \<Longrightarrow> priv_editors (fst (execute F s t)) i u"
  by (cases t; cases "snd t")
     (auto simp: op_defs Let_def split: sum.splits option.splits if_splits prod.splits)

lemma run_editors_mono:
  "priv_editors s i u \<Longrightarrow> priv_editors (fst (run F s ts)) i u"
proof (induction ts arbitrary: s)
  case Nil
  then show ?case by simp
next
  case (Cons t ts)
  from Cons.prems have "priv_editors (fst (execute F s t)) i u"
    by (rule execute_editors_mono)
  then have "priv_editors (fst (run F (fst (execute F s t)) ts)) i u"
    by (rule Cons.IH)
  then show ?case by (simp add: split_beta Let_def)
qed

lemma execute_exists_mono:
  "msg_sender (fst t) \<noteq> 0 \<Longrightarrow> owner (priv_documents s i) \<noteq> 0
     \<Longrightarrow> owner (priv_documents (fst (execute F s t)) i) \<noteq> 0"
  by (cases t; cases "snd t")
     (auto simp: op_defs Let_def split: sum.splits option.splits if_splits prod.splits)

lemma execute_owner_editor:
  "(\<forall>i. owner (priv_documents s i) \<noteq> 0 \<longrightarrow> priv_editors s i (owner (priv_documents s i)))
     \<Longrightarrow> owner (priv_documents (fst (execute F s t)) i) \<noteq> 0
     \<Longrightarrow> priv_editors (fst (execute F s t)) i (owner (priv_documents (fst (execute F s t)) i))"
  by (cases t; cases "snd t")
     (auto simp: op_defs Let_def split: sum.splits option.splits if_splits prod.splits)

lemma execute_owner_created:
  "owner (priv_documents (fst (execute F s t)) i) \<noteq> 0
     \<Longrightarrow> owner (priv_documents s i) \<noteq> 0 \<or> snd (execute F s t) = Created i"
  by (cases t; cases "snd t")
     (auto simp: op_defs Let_def split: sum.splits option.splits if_splits prod.splits)

lemma execute_editor_created:
  "priv_editors (fst (execute F s t)) i u
     \<Longrightarrow> priv_editors s i u \<or> owner (priv_documents s i) \<noteq> 0 \<or> snd (execute F s t) = Created i"
  by (cases t; cases "snd t")
     (auto simp: op_defs Let_def split: sum.splits option.splits if_splits prod.splits)

lemma execute_count:
  "priv_documentCount (fst (execute F s t)) =
     (case snd (execute F s t) of Created i \<Rightarrow> i | _ \<Rightarrow> priv_documentCount s)"
  by (cases t; cases "snd t")
     (auto simp: op_defs Let_def split: sum.splits option.splits if_splits prod.splits)

lemma unat_checked_incr:
  fixes c :: "'a::len word"
  assumes "c \<noteq> - 1"
  shows "unat (c + 1) = Suc (unat c)"
proof -
  from assms have "1 + c \<noteq> 0" by (simp add: add_eq_0_iff)
  then have "unat (1 + c) = Suc (unat c)" by (rule unatSuc)
  then show ?thesis by (simp add: add.commute)
qed

lemma execute_created_id:
  "snd (execute F s t) = Created i \<Longrightarrow> unat i = Suc (unat (priv_documentCount s))"
  by (cases t; cases "snd t")
     (auto simp: op_defs Let_def unat_checked_incr split: sum.splits option.splits if_splits prod.splits)

lemma upt_Suc_shift: "[Suc c ..< Suc c + Suc n] = Suc c # [Suc (Suc c) ..< Suc (Suc c) + n]"
  by (simp add: upt_rec [of "Suc c"])

lemma run_count:
  "map unat (created_ids (snd (run F s ts))) =
     [Suc (unat (priv_documentCount s)) ..<
      Suc (unat (priv_documentCount s)) + length (created_ids (snd (run F s ts)))]
   \<and> unat (priv_documentCount (fst (run F s ts))) =
       unat (priv_documentCount s) + length (created_ids (snd (run F s ts)))"
proof (induction ts arbitrary: s)
  case Nil
  then show ?case by simp
next
  case (Cons t ts)
  obtain s1 r where ex: "execute F s t = (s1, r)" by (cases "execute F s t")
  obtain s2 rs where rn: "run F s1 ts = (s2, rs)" by (cases "run F s1 ts")
  have IH1: "map unat (created_ids rs) =
      [Suc (unat (priv_documentCount s1)) ..<
       Suc (unat (priv_documentCount s1)) + length (created_ids rs)]"
    and IH2: "unat (priv_documentCount s2) =
      unat (priv_documentCount s1) + length (created_ids rs)"
    using Cons.IH [of s1] unfolding rn by simp_all
  have res: "run F s (t # ts) = (s2, r # rs)"
    using ex rn by simp
  show ?case
  proof (cases r)
    case (Created i)
    from ex Created have i: "unat i = Suc (unat (priv_documentCount s))"
      using execute_created_id [of F s t i] by simp
    from ex Created have c: "priv_documentCount s1 = i"
      using execute_count [of F s t] by simp
    have "map unat (created_ids (r # rs)) =
        Suc (unat (priv_documentCount s)) #
        [Suc (Suc (unat (priv_documentCount s))) ..<
         Suc (Suc (unat (priv_documentCount s))) + length (created_ids rs)]"
      using IH1 Created i c by simp
    also have "\<dots> = [Suc (unat (priv_documentCount s)) ..<
        Suc (unat (priv_documentCount s)) + Suc (length (created_ids rs))]"
      by (rule upt_Suc_shift [symmetric])
    finally have "map unat (created_ids (r # rs)) =
        [Suc (unat (priv_documentCount s)) ..<
         Suc (unat (priv_documentCount s)) + length (created_ids (r # rs))]"
      using Created by simp
    moreover have "unat (priv_documentCount s2) =
        unat (priv_documentCount s) + length (created_ids (r # rs))"
      using IH2 Created i c by simp
    ultimately show ?thesis unfolding res by simp
  next
    case (Reverted err)
    with ex have "priv_documentCount s1 = priv_documentCount s"
      using execute_count [of F s t] by simp
    then show ?thesis using IH1 IH2 Reverted unfolding res by simp
  next
    case Done
    with ex have "priv_documentCount s1 = priv_documentCount s"
      using execute_count [of F s t] by simp
    then show ?thesis using IH1 IH2 Done unfolding res by simp
  qed
qed

lemma run_created:
  "priv_editors (fst (run F s ts)) i u \<or> owner (priv_documents (fst (run F s ts)) i) \<noteq> 0
     \<Longrightarrow> priv_editors s i u \<or> owner (priv_documents s i) \<noteq> 0
          \<or> i \<in> set (created_ids (snd (run F s ts)))"
proof (induction ts arbitrary: s)
  case Nil
  then show ?case by simp
next
  case (Cons t ts)
  obtain s1 r where ex: "execute F s t = (s1, r)" by (cases "execute F s t")
  obtain s2 rs where rn: "run F s1 ts = (s2, rs)" by (cases "run F s1 ts")
  from Cons.prems ex rn have "priv_editors s2 i u \<or> owner (priv_documents s2 i) \<noteq> 0"
    by simp
  with Cons.IH [of s1] rn
  have "priv_editors s1 i u \<or> owner (priv_documents s1 i) \<noteq> 0 \<or> i \<in> set (created_ids rs)"
    by simp
  moreover have "priv_editors s1 i u \<Longrightarrow>
      priv_editors s i u \<or> owner (priv_documents s i) \<noteq> 0 \<or> r = Created i"
    using execute_editor_created [of F s t i u] ex by simp
  moreover have "owner (priv_documents s1 i) \<noteq> 0 \<Longrightarrow>
      owner (priv_documents s i) \<noteq> 0 \<or> r = Created i"
    using execute_owner_created [of F s t i] ex by simp
  ultimately show ?case using ex rn by (cases r) auto
qed

lemma run_owner_editor:
  "(\<forall>i. owner (priv_documents s i) \<noteq> 0 \<longrightarrow> priv_editors s i (owner (priv_documents s i)))
     \<Longrightarrow> owner (priv_documents (fst (run F s ts)) i) \<noteq> 0
     \<Longrightarrow> priv_editors (fst (run F s ts)) i (owner (priv_documents (fst (run F s ts)) i))"
proof (induction ts arbitrary: s i)
  case Nil
  then show ?case by simp
next
  case (Cons t ts)
  have "\<forall>j. owner (priv_documents (fst (execute F s t)) j) \<noteq> 0 \<longrightarrow>
      priv_editors (fst (execute F s t)) j (owner (priv_documents (fst (execute F s t)) j))"
    using execute_owner_editor [OF Cons.prems(1)] by blast
  from Cons.IH [OF this] Cons.prems(2) show ?case
    by (simp add: split_beta Let_def)
qed

lemma run_exists_mono:
  "\<forall>t \<in> set ts. msg_sender (fst t) \<noteq> 0 \<Longrightarrow> owner (priv_documents s i) \<noteq> 0
     \<Longrightarrow> owner (priv_documents (fst (run F s ts)) i) \<noteq> 0"
proof (induction ts arbitrary: s)
  case Nil
  then show ?case by simp
next
  case (Cons t ts)
  from Cons.prems have "owner (priv_documents (fst (execute F s t)) i) \<noteq> 0"
    by (simp add: execute_exists_mono)
  with Cons.IH [of "fst (execute F s t)"] Cons.prems(1) show ?case
    by (simp add: split_beta Let_def)
qed

lemma created_id_above_count:
  assumes "i \<in> set (created_ids (snd (run F s ts)))"
  shows "unat (priv_documentCount s) < unat i"
proof -
  let ?ids = "created_ids (snd (run F s ts))"
  from assms have "unat i \<in> unat ` set ?ids" by (rule imageI)
  then have "unat i \<in> set (map unat ?ids)" by simp
  also have "map unat ?ids =
      [Suc (unat (priv_documentCount s)) ..< Suc (unat (priv_documentCount s)) + length ?ids]"
    using run_count [of F s ts] by (rule conjunct1)
  finally show ?thesis by (simp only: set_upt atLeastLessThan_iff) arith
qed

lemma init_fields:
  "priv_documentCount (init a) = 0"
  "owner (priv_documents (init a) i) = 0"
  "\<not> priv_editors (init a) i u"
  by (simp_all add: init_def zeroDocument_def)

lemma never_created_owner:
  assumes "i \<notin> set (created_ids (snd (run F (init a) ts)))"
  shows "owner (priv_documents (fst (run F (init a) ts)) i) = 0"
  using run_created [of F "init a" ts i undefined] assms by (auto simp: init_fields)

lemma never_created_editor:
  assumes "i \<notin> set (created_ids (snd (run F (init a) ts)))"
  shows "\<not> priv_editors (fst (run F (init a) ts)) i u"
  using run_created [of F "init a" ts i u] assms by (auto simp: init_fields)

lemma zero_never_created: "0 \<notin> set (created_ids (snd (run F s ts)))"
  using created_id_above_count [of 0 F s ts] by auto

lemmas eval_defs = createDocument_def updateDocument_def grantAccess_def
  getDocument_priv_def getDocument_def isEditor_def documentCount_def init_def mockFHE_def Let_def
  zeroDocument_def alice_def bob_def carol_def tx_create_def tx_grant_def tx_update_def
  tx_other_def deployed_def state_created_def state_granted_def

section \<open>The properties claimed by the specification\<close>

subsection \<open>C1: a granted identity can update\<close>

text \<open>
  Claim C1, as amended. Whenever \<^verbatim>\<open>grantAccess(O, id, X)\<close> succeeds (which needs the document
  to exist, \<open>O\<close> to be its owner and \<open>X\<close> to be non-zero), \<^verbatim>\<open>isEditor(id, X)\<close> is true in
  the state it leaves and stays true after any further transactions sent from non-zero
  addresses; \<^verbatim>\<open>updateDocument(X, id, body)\<close> then succeeds, sets \<^verbatim>\<open>encryptedBody\<close> to \<open>body\<close>
  and sets \<^verbatim>\<open>updatedAt\<close> to the block timestamp of the call, leaving the other fields as they
  were. \<^verbatim>\<open>updatedAt\<close> is strictly later than before whenever that timestamp is later than
  the stored value.
\<close>

theorem grant_then_update:
  assumes grant: "grantAccess F e s i X = Inr s1"
    and senders: "\<forall>t \<in> set ts. msg_sender (fst t) \<noteq> 0"
    and caller: "msg_sender e' = X"
  shows "isEditor s1 i X = Inr True \<and>
         isEditor (fst (run F s1 ts)) i X = Inr True \<and>
         (\<exists>s3. updateDocument e' (fst (run F s1 ts)) i body = Inr s3 \<and>
               encryptedBody (priv_documents s3 i) = body \<and>
               updatedAt (priv_documents s3 i) = block_timestamp e' \<and>
               (updatedAt (priv_documents (fst (run F s1 ts)) i) < block_timestamp e' \<longrightarrow>
                  updatedAt (priv_documents (fst (run F s1 ts)) i)
                    < updatedAt (priv_documents s3 i)) \<and>
               getDocument s3 i =
                 Inr (name (priv_documents (fst (run F s1 ts)) i), body,
                      encryptedKey (priv_documents (fst (run F s1 ts)) i),
                      owner (priv_documents (fst (run F s1 ts)) i),
                      createdAt (priv_documents (fst (run F s1 ts)) i),
                      block_timestamp e'))"
proof -
  from grant have ex1: "owner (priv_documents s1 i) \<noteq> 0" and ed1: "priv_editors s1 i X"
    by (auto simp: grantAccess_def getDocument_priv_def Let_def
             split: if_splits option.splits)
  let ?s2 = "fst (run F s1 ts)"
  from senders ex1 have ex2: "owner (priv_documents ?s2 i) \<noteq> 0"
    by (rule run_exists_mono)
  from ed1 have ed2: "priv_editors ?s2 i X"
    by (rule run_editors_mono)
  from ex1 ed1 have "isEditor s1 i X = Inr True"
    by (simp add: isEditor_def getDocument_priv_def)
  moreover from ex2 ed2 have "isEditor ?s2 i X = Inr True"
    by (simp add: isEditor_def getDocument_priv_def)
  moreover from ex2 ed2 caller
  have "\<exists>s3. updateDocument e' ?s2 i body = Inr s3 \<and>
               encryptedBody (priv_documents s3 i) = body \<and>
               updatedAt (priv_documents s3 i) = block_timestamp e' \<and>
               (updatedAt (priv_documents ?s2 i) < block_timestamp e' \<longrightarrow>
                  updatedAt (priv_documents ?s2 i) < updatedAt (priv_documents s3 i)) \<and>
               getDocument s3 i =
                 Inr (name (priv_documents ?s2 i), body, encryptedKey (priv_documents ?s2 i),
                      owner (priv_documents ?s2 i), createdAt (priv_documents ?s2 i),
                      block_timestamp e')"
    by (simp add: updateDocument_def getDocument_def getDocument_priv_def Let_def)
  ultimately show ?thesis by blast
qed

text \<open>
  The scenario with one more transaction, by Carol, between the grant and Bob's update at
  time 200.
\<close>

theorem grant_then_update_witness:
  "grantAccess mockFHE \<lparr>msg_sender = alice, block_timestamp = 100\<rparr> state_created 1 bob
     = Inr state_granted \<and>
   isEditor state_granted 1 bob = Inr True \<and>
   isEditor (fst (run mockFHE state_granted [tx_other])) 1 bob = Inr True \<and>
   (\<exists>s3. updateDocument \<lparr>msg_sender = bob, block_timestamp = 200\<rparr>
           (fst (run mockFHE state_granted [tx_other])) 1 ''ciphertext'' = Inr s3 \<and>
         getDocument s3 1 = Inr (''Ops Manual'', ''ciphertext'', 7, alice, 100, 200))"
proof -
  have g: "grantAccess mockFHE \<lparr>msg_sender = alice, block_timestamp = 100\<rparr> state_created 1 bob
      = Inr state_granted"
    by (simp add: eval_defs)
  have n: "\<forall>t \<in> set [tx_other]. msg_sender (fst t) \<noteq> 0"
    by (simp add: eval_defs)
  have c: "msg_sender \<lparr>msg_sender = bob, block_timestamp = 200\<rparr> = bob"
    by simp
  have d: "name (priv_documents (fst (run mockFHE state_granted [tx_other])) 1) = ''Ops Manual''"
    "encryptedKey (priv_documents (fst (run mockFHE state_granted [tx_other])) 1) = 7"
    "owner (priv_documents (fst (run mockFHE state_granted [tx_other])) 1) = alice"
    "createdAt (priv_documents (fst (run mockFHE state_granted [tx_other])) 1) = 100"
    by (simp_all add: eval_defs)
  from grant_then_update [OF g n c, of "''ciphertext''"] g show ?thesis
    unfolding d by auto
qed

text \<open>
  As stated, C1 has \<^verbatim>\<open>updatedAt\<close> advance on every successful update. The contract stores
  \<^verbatim>\<open>block.timestamp\<close>, which is the same for all transactions of one block: in the scenario
  the creation, the grant and the update all succeed, and \<^verbatim>\<open>updatedAt\<close> is 100 before the
  update and 100 after it.
\<close>

theorem grant_then_update_counterexample:
  "snd (run mockFHE deployed [tx_create, tx_grant, tx_update]) = [Created 1, Done, Done] \<and>
   \<not> updatedAt (priv_documents (fst (run mockFHE deployed [tx_create, tx_grant])) 1)
     < updatedAt (priv_documents (fst (run mockFHE deployed [tx_create, tx_grant, tx_update])) 1)"
  by (simp add: eval_defs)

subsection \<open>C2: the owner is always an editor\<close>

text \<open>
  Claim C2. In every state reached from deployment by any sequence of transactions, every
  document whose owner is set has its owner in its access set: \<^verbatim>\<open>isEditor(id, owner)\<close> is
  true. A successful \<^verbatim>\<open>createDocument\<close> leaves the caller as owner and as member of the new
  document in the same step, and no transaction removes a member.
\<close>

theorem owner_is_editor:
  "(owner (priv_documents (fst (run F (init a) ts)) i) \<noteq> 0 \<longrightarrow>
      isEditor (fst (run F (init a) ts)) i (owner (priv_documents (fst (run F (init a) ts)) i))
        = Inr True) \<and>
   (createDocument F e s nm k p = Inr (s', j) \<longrightarrow>
      owner (priv_documents s' j) = msg_sender e \<and> priv_editors s' j (msg_sender e)) \<and>
   (priv_editors s0 j0 u \<longrightarrow> priv_editors (fst (execute F s0 t)) j0 u)"
proof -
  have init_ok: "\<forall>i. owner (priv_documents (init a) i) \<noteq> 0 \<longrightarrow>
      priv_editors (init a) i (owner (priv_documents (init a) i))"
    by (simp add: init_def zeroDocument_def)
  have "owner (priv_documents (fst (run F (init a) ts)) i) \<noteq> 0 \<longrightarrow>
      isEditor (fst (run F (init a) ts)) i (owner (priv_documents (fst (run F (init a) ts)) i))
        = Inr True"
    using run_owner_editor [OF init_ok, of F ts i]
    by (simp add: isEditor_def getDocument_priv_def)
  moreover have "createDocument F e s nm k p = Inr (s', j) \<longrightarrow>
      owner (priv_documents s' j) = msg_sender e \<and> priv_editors s' j (msg_sender e)"
    by (auto simp: createDocument_def Let_def split: if_splits option.splits)
  moreover have "priv_editors s0 j0 u \<longrightarrow> priv_editors (fst (execute F s0 t)) j0 u"
    by (simp add: execute_editors_mono)
  ultimately show ?thesis by blast
qed

theorem owner_is_editor_witness:
  "owner (priv_documents (fst (run mockFHE (init []) [tx_create, tx_grant])) 1) = alice \<and>
   alice \<noteq> 0 \<and>
   isEditor (fst (run mockFHE (init []) [tx_create, tx_grant])) 1 alice = Inr True \<and>
   createDocument mockFHE (fst tx_create) deployed ''Ops Manual'' 7 [1] = Inr (state_created, 1) \<and>
   priv_editors state_created 1 alice \<and>
   priv_editors (fst (execute mockFHE state_created tx_grant)) 1 alice"
proof -
  have o: "owner (priv_documents (fst (run mockFHE (init []) [tx_create, tx_grant])) 1) = alice"
    and a: "alice \<noteq> 0"
    and c: "createDocument mockFHE (fst tx_create) deployed ''Ops Manual'' 7 [1]
              = Inr (state_created, 1)"
    by (simp_all add: eval_defs)
  have m: "msg_sender (fst tx_create) = alice"
    by (simp add: tx_create_def)
  from owner_is_editor [where F = mockFHE and a = "[]" and ts = "[tx_create, tx_grant]"
      and i = 1 and e = "fst tx_create" and s = deployed and nm = "''Ops Manual''" and k = 7
      and p = "[1]" and s' = state_created and j = 1 and s0 = state_created and ?j0.0 = 1
      and u = alice and t = tx_grant] o a c m
  show ?thesis by simp
qed

subsection \<open>C3: ids are 1, 2, 3, ... and the count is the number of creations\<close>

text \<open>
  Claim C3. For every sequence of transactions from deployment, the ids returned by the
  successful \<^verbatim>\<open>createDocument\<close> calls are, in order, 1, 2, ..., n, where n is the number of
  those calls; \<^verbatim>\<open>documentCount()\<close> is n afterwards; and 0 is never returned.
\<close>

theorem created_ids_dense:
  "map unat (created_ids (snd (run F (init a) ts))) =
     [1 ..< Suc (length (created_ids (snd (run F (init a) ts))))] \<and>
   unat (documentCount (fst (run F (init a) ts))) =
     length (created_ids (snd (run F (init a) ts))) \<and>
   0 \<notin> set (created_ids (snd (run F (init a) ts)))"
proof -
  have c0: "unat (priv_documentCount (init a)) = 0"
    by (simp add: init_def)
  have ids: "map unat (created_ids (snd (run F (init a) ts))) =
      [1 ..< Suc (length (created_ids (snd (run F (init a) ts))))]"
    using run_count [of F "init a" ts] unfolding c0 by simp
  have cnt: "unat (documentCount (fst (run F (init a) ts))) =
      length (created_ids (snd (run F (init a) ts)))"
    using run_count [of F "init a" ts] unfolding c0 by (simp add: documentCount_def)
  have "0 \<notin> set (created_ids (snd (run F (init a) ts)))"
    by (rule zero_never_created)
  with ids cnt show ?thesis by blast
qed

theorem created_ids_dense_witness:
  "created_ids (snd (run mockFHE (init []) [tx_create, tx_grant, tx_other, tx_update])) = [1, 2] \<and>
   unat (documentCount (fst (run mockFHE (init []) [tx_create, tx_grant, tx_other, tx_update]))) = 2 \<and>
   0 \<notin> set (created_ids (snd (run mockFHE (init []) [tx_create, tx_grant, tx_other, tx_update])))"
proof -
  have l: "created_ids (snd (run mockFHE (init []) [tx_create, tx_grant, tx_other, tx_update]))
      = [1, 2]"
    by (simp add: eval_defs)
  from created_ids_dense [of mockFHE "[]" "[tx_create, tx_grant, tx_other, tx_update]",
      THEN conjunct2]
  show ?thesis unfolding l by simp
qed

subsection \<open>C4: an id never created is not found\<close>

text \<open>
  Claim C4. After any sequence of transactions from deployment, \<^verbatim>\<open>getDocument(id)\<close> reverts
  with \<^verbatim>\<open>DocumentNotFound(id)\<close> for every id that no successful \<^verbatim>\<open>createDocument\<close> of the
  sequence returned, and for id 0 in particular. In any state at all, \<^verbatim>\<open>getDocument\<close>
  reverts exactly when the owner field of the document is zero: the counter is not read.
\<close>

theorem getDocument_never_created:
  "(i \<notin> set (created_ids (snd (run F (init a) ts))) \<longrightarrow>
      getDocument (fst (run F (init a) ts)) i = Inl (DocumentNotFound i)) \<and>
   getDocument (fst (run F (init a) ts)) 0 = Inl (DocumentNotFound 0) \<and>
   ((getDocument s j = Inl (DocumentNotFound j)) = (owner (priv_documents s j) = 0))"
proof -
  have absent: "owner (priv_documents (fst (run F (init a) ts)) n) = 0"
    if "n \<notin> set (created_ids (snd (run F (init a) ts)))" for n
    using that by (rule never_created_owner)
  have zero: "0 \<notin> set (created_ids (snd (run F (init a) ts)))"
    by (rule zero_never_created)
  have "i \<notin> set (created_ids (snd (run F (init a) ts))) \<longrightarrow>
      getDocument (fst (run F (init a) ts)) i = Inl (DocumentNotFound i)"
    using absent [of i] by (simp add: getDocument_def getDocument_priv_def)
  moreover have "getDocument (fst (run F (init a) ts)) 0 = Inl (DocumentNotFound 0)"
    using absent [OF zero] by (simp add: getDocument_def getDocument_priv_def)
  moreover have "(getDocument s j = Inl (DocumentNotFound j)) = (owner (priv_documents s j) = 0)"
    by (simp add: getDocument_def getDocument_priv_def Let_def)
  ultimately show ?thesis by blast
qed

text \<open>
  After the creation and the grant, id 2 and id 0 are not found and id 1 is. In a state
  whose counter is 5 and whose documents are all unset, id 3 is within the counter's range
  and is not found.
\<close>

theorem getDocument_never_created_witness:
  "2 \<notin> set (created_ids (snd (run mockFHE (init []) [tx_create, tx_grant]))) \<and>
   getDocument (fst (run mockFHE (init []) [tx_create, tx_grant])) 2 = Inl (DocumentNotFound 2) \<and>
   getDocument (fst (run mockFHE (init []) [tx_create, tx_grant])) 0 = Inl (DocumentNotFound 0) \<and>
   getDocument state_granted 1 \<noteq> Inl (DocumentNotFound 1) \<and>
   getDocument (deployed\<lparr>priv_documentCount := 5\<rparr>) 3 = Inl (DocumentNotFound 3)"
proof -
  have n: "2 \<notin> set (created_ids (snd (run mockFHE (init []) [tx_create, tx_grant])))"
    and o: "owner (priv_documents state_granted 1) \<noteq> 0"
    and z: "owner (priv_documents (deployed\<lparr>priv_documentCount := 5\<rparr>) 3) = 0"
    by (simp_all add: eval_defs)
  from getDocument_never_created [of 2 mockFHE "[]" "[tx_create, tx_grant]" state_granted 1]
    getDocument_never_created [of 2 mockFHE "[]" "[tx_create, tx_grant]"
      "deployed\<lparr>priv_documentCount := 5\<rparr>" 3] n o z
  show ?thesis by simp
qed

subsection \<open>C5: an update by a non-member is refused and changes nothing\<close>

text \<open>
  Claim C5. For an existing document and a caller that is not in its access set,
  \<^verbatim>\<open>updateDocument\<close> reverts with \<^verbatim>\<open>NotAuthorized(caller)\<close>, and the transaction leaves the
  whole state as it was, so \<^verbatim>\<open>getDocument\<close> returns the same body and timestamps.
\<close>

theorem update_non_member:
  assumes "owner (priv_documents s i) \<noteq> 0"
    and "\<not> priv_editors s i (msg_sender e)"
  shows "updateDocument e s i body = Inl (NotAuthorized (msg_sender e)) \<and>
         execute F s (e, UpdateDocument i body) = (s, Reverted (NotAuthorized (msg_sender e))) \<and>
         getDocument (fst (execute F s (e, UpdateDocument i body))) i = getDocument s i"
  using assms by (simp add: updateDocument_def getDocument_priv_def)

theorem update_non_member_witness:
  "owner (priv_documents state_created 1) \<noteq> 0 \<and>
   \<not> priv_editors state_created 1 bob \<and>
   updateDocument (fst tx_update) state_created 1 ''ciphertext'' = Inl (NotAuthorized bob) \<and>
   execute mockFHE state_created tx_update = (state_created, Reverted (NotAuthorized bob))"
proof -
  have x: "owner (priv_documents state_created 1) \<noteq> 0"
    and m: "\<not> priv_editors state_created 1 (msg_sender (fst tx_update))"
    by (simp_all add: eval_defs)
  have b: "msg_sender (fst tx_update) = bob" and t: "tx_update = (fst tx_update, UpdateDocument 1 ''ciphertext'')"
    by (simp_all add: tx_update_def)
  from update_non_member [OF x m, of "''ciphertext''" mockFHE] x m
  show ?thesis unfolding b t [symmetric] by simp
qed

subsection \<open>C6: only the owner grants\<close>

text \<open>
  Claim C6. For an existing document, a non-zero target and a caller that is not the
  document's owner, \<^verbatim>\<open>grantAccess\<close> reverts with \<^verbatim>\<open>NotAuthorized(caller)\<close>, whether or not the
  caller is an editor of the document.
\<close>

theorem grant_non_owner:
  assumes "owner (priv_documents s i) \<noteq> 0"
    and "user \<noteq> 0"
    and "msg_sender e \<noteq> owner (priv_documents s i)"
  shows "grantAccess F e s i user = Inl (NotAuthorized (msg_sender e))"
  using assms by (simp add: grantAccess_def getDocument_priv_def)

text \<open>Bob is an editor after Alice's grant, and his own grant to Carol is refused.\<close>

theorem grant_non_owner_witness:
  "owner (priv_documents state_granted 1) \<noteq> 0 \<and>
   isEditor state_granted 1 bob = Inr True \<and>
   grantAccess mockFHE \<lparr>msg_sender = bob, block_timestamp = 120\<rparr> state_granted 1 carol
     = Inl (NotAuthorized bob)"
proof -
  have x: "owner (priv_documents state_granted 1) \<noteq> 0"
    and u: "carol \<noteq> 0"
    and n: "msg_sender \<lparr>msg_sender = bob, block_timestamp = 120\<rparr>
              \<noteq> owner (priv_documents state_granted 1)"
    and m: "isEditor state_granted 1 bob = Inr True"
    by (simp_all add: eval_defs)
  from grant_non_owner [OF x u n, of mockFHE] x m show ?thesis by simp
qed

subsection \<open>C7: the membership query on a document that does not exist\<close>

text \<open>
  Claim C7, as amended. For every id that no successful \<^verbatim>\<open>createDocument\<close> returned, and
  every identity, \<^verbatim>\<open>isEditor(id, identity)\<close> reverts with \<^verbatim>\<open>DocumentNotFound(id)\<close>; it does not
  return false. Only the stored entry \<^verbatim>\<open>_editors[id][identity]\<close> is false.
\<close>

theorem isEditor_nonexistent:
  "i \<notin> set (created_ids (snd (run F (init a) ts))) \<Longrightarrow>
     isEditor (fst (run F (init a) ts)) i user = Inl (DocumentNotFound i) \<and>
     \<not> priv_editors (fst (run F (init a) ts)) i user"
  using never_created_owner [of i F a ts] never_created_editor [of i F a ts user]
  by (simp add: isEditor_def getDocument_priv_def)

theorem isEditor_nonexistent_witness:
  "2 \<notin> set (created_ids (snd (run mockFHE (init []) [tx_create]))) \<and>
   isEditor (fst (run mockFHE (init []) [tx_create])) 2 alice = Inl (DocumentNotFound 2) \<and>
   \<not> priv_editors (fst (run mockFHE (init []) [tx_create])) 2 alice"
proof -
  have n: "2 \<notin> set (created_ids (snd (run mockFHE (init []) [tx_create])))"
    by (simp add: eval_defs)
  from isEditor_nonexistent [OF n, of alice] n show ?thesis by simp
qed

text \<open>
  As stated, C7 has the query return false. \<^verbatim>\<open>isEditor\<close> calls \<^verbatim>\<open>_getDocument\<close> first: with
  only document 1 created, the query on id 2 reverts.
\<close>

theorem isEditor_nonexistent_counterexample:
  "isEditor state_created 2 alice = Inl (DocumentNotFound 2) \<and>
   isEditor state_created 2 alice \<noteq> Inr False"
  by (simp add: eval_defs)

subsection \<open>C8: granting again changes no membership\<close>

text \<open>
  Claim C8. When the target is already an editor of the document, the caller is the owner
  and the target is non-zero, \<^verbatim>\<open>grantAccess\<close> raises none of its errors: it succeeds as soon
  as the call of \<^verbatim>\<open>FHE.allow\<close> it makes returns. The access set is then the same as before,
  and \<^verbatim>\<open>isEditor\<close> gives the same answer as before for every id and every identity.
\<close>

theorem regrant_idempotent:
  assumes "isEditor s i target = Inr True"
    and "msg_sender e = owner (priv_documents s i)"
    and "target \<noteq> 0"
    and "allow F (acl s) (encryptedKey (priv_documents s i)) target = Some a'"
  shows "\<exists>s'. grantAccess F e s i target = Inr s' \<and>
              priv_editors s' = priv_editors s \<and>
              (\<forall>j u. isEditor s' j u = isEditor s j u)"
proof -
  from assms(1) have ex: "owner (priv_documents s i) \<noteq> 0" and ed: "priv_editors s i target"
    by (auto simp: isEditor_def getDocument_priv_def Let_def split: if_splits)
  from ed have same: "(priv_editors s)(i := (priv_editors s i)(target := True)) = priv_editors s"
    by (simp add: fun_upd_idem)
  show ?thesis
    using ex assms(2-4) same
    by (simp add: grantAccess_def isEditor_def getDocument_priv_def Let_def)
qed

theorem regrant_idempotent_witness:
  "isEditor state_granted 1 bob = Inr True \<and>
   (\<exists>s'. grantAccess mockFHE (fst tx_grant) state_granted 1 bob = Inr s' \<and>
         priv_editors s' = priv_editors state_granted \<and>
         (\<forall>j u. isEditor s' j u = isEditor state_granted j u))"
proof -
  have m: "isEditor state_granted 1 bob = Inr True"
    and o: "msg_sender (fst tx_grant) = owner (priv_documents state_granted 1)"
    and z: "bob \<noteq> 0"
    and a: "allow mockFHE (acl state_granted) (encryptedKey (priv_documents state_granted 1)) bob
              = Some ((7, Some bob) # acl state_granted)"
    by (simp_all add: eval_defs)
  from regrant_idempotent [OF m o z a] m show ?thesis by simp
qed

subsection \<open>C9: the state right after a creation\<close>

text \<open>
  Claim C9. After a successful \<^verbatim>\<open>createDocument\<close> by a caller (\<^verbatim>\<open>msg.sender\<close>, which is never
  the zero address for a transaction) returning \<open>id\<close>, \<^verbatim>\<open>isEditor(id, caller)\<close> is true and
  \<^verbatim>\<open>getDocument(id)\<close> succeeds with the given name, an empty body, the caller as owner, and
  \<^verbatim>\<open>createdAt\<close> and \<^verbatim>\<open>updatedAt\<close> both equal to the block timestamp. The id is the previous count
  plus one.
\<close>

theorem create_postcondition:
  assumes "createDocument F e s nm k p = Inr (s', i)"
    and "msg_sender e \<noteq> 0"
  shows "isEditor s' i (msg_sender e) = Inr True \<and>
         (\<exists>key. getDocument s' i =
            Inr (nm, [], key, msg_sender e, block_timestamp e, block_timestamp e)) \<and>
         i = documentCount s + 1"
  using assms
  by (auto simp: createDocument_def isEditor_def getDocument_def getDocument_priv_def
        documentCount_def Let_def split: if_splits option.splits)

theorem create_postcondition_witness:
  "createDocument mockFHE (fst tx_create) deployed ''Ops Manual'' 7 [1] = Inr (state_created, 1) \<and>
   isEditor state_created 1 alice = Inr True \<and>
   getDocument state_created 1 = Inr (''Ops Manual'', [], 7, alice, 100, 100)"
proof -
  have c: "createDocument mockFHE (fst tx_create) deployed ''Ops Manual'' 7 [1]
      = Inr (state_created, 1)"
    and z: "msg_sender (fst tx_create) \<noteq> 0"
    and k: "encryptedKey (priv_documents state_created 1) = 7"
    by (simp_all add: eval_defs)
  have e: "msg_sender (fst tx_create) = alice" "block_timestamp (fst tx_create) = 100"
    by (simp_all add: tx_create_def)
  from create_postcondition [OF c z] c k show ?thesis
    unfolding e by (auto simp: getDocument_def getDocument_priv_def Let_def split: if_splits)
qed

subsection \<open>C10: the zero target is rejected first\<close>

text \<open>
  Claim C10. In every state, for every id and every caller, \<^verbatim>\<open>grantAccess\<close> with the zero
  address as target reverts with \<^verbatim>\<open>InvalidAddress\<close>: the target is checked before the
  document is looked up and before the caller is compared with the owner.
\<close>

theorem grant_zero_target:
  "grantAccess F e s i 0 = Inl InvalidAddress"
  by (simp add: grantAccess_def)

text \<open>On a document that does not exist, and on Alice's document with Bob as caller.\<close>

theorem grant_zero_target_witness:
  "grantAccess mockFHE \<lparr>msg_sender = bob, block_timestamp = 100\<rparr> deployed 5 0
     = Inl InvalidAddress \<and>
   grantAccess mockFHE \<lparr>msg_sender = bob, block_timestamp = 100\<rparr> state_created 1 0
     = Inl InvalidAddress"
  using grant_zero_target [of mockFHE "\<lparr>msg_sender = bob, block_timestamp = 100\<rparr>" deployed 5]
    grant_zero_target [of mockFHE "\<lparr>msg_sender = bob, block_timestamp = 100\<rparr>" state_created 1]
  by simp

end
